theory Spec2Isabelle
  imports Complex_Main "HOL-Library.Sublist" "HOL-Library.AList"
begin

section \<open>The shelters page: values of the language\<close>

text \<open>
  The page (\<^verbatim>\<open>src/app/shelters/page.tsx\<close>) keeps its shelters in a state of type
  \<^verbatim>\<open>any[]\<close>, so the embedding works on untyped values: the primitives, objects as
  association lists from property names to values (in insertion order, the first binding of a
  name is the one that counts) and arrays.

  A number is \<open>NaN\<close>, an infinity or the exact rational value of its literal: rounding to
  binary64 and the sign of zero are not modelled. The statements below about the rating
  criterion are made on the value that \<open>Number\<close> returns, whatever string it came from.
  A string is a list of bytes; \<open>toLowerCase\<close> lowers the letters A to Z and leaves every
  other byte as it is, and the white space that \<open>Number\<close> trims is the ASCII one.
\<close>

datatype jsnum = NaN | NegInf | Fin rat | PosInf

datatype jsval =
    Undefined
  | Null
  | Bool bool
  | Num jsnum
  | Str string
  | Obj "(string \<times> jsval) list"
  | Arr "jsval list"

type_synonym jsobj = "(string \<times> jsval) list"

text \<open>The only exception the page can raise by itself: calling a method that is not there.\<close>

datatype exn = TypeError

text \<open>A computation that may throw returns \<open>Inl\<close> the exception; the next one runs on \<open>Inr\<close>.\<close>

definition bind_exn :: "exn + 'a \<Rightarrow> ('a \<Rightarrow> exn + 'b) \<Rightarrow> exn + 'b" where
  "bind_exn m f = (case m of Inl e \<Rightarrow> Inl e | Inr x \<Rightarrow> f x)"

subsection \<open>Truthiness, \<open>||\<close> and \<open>??\<close>\<close>

fun truthy :: "jsval \<Rightarrow> bool" where
  "truthy Undefined = False"
| "truthy Null = False"
| "truthy (Bool b) = b"
| "truthy (Num n) = (n \<noteq> NaN \<and> n \<noteq> Fin 0)"
| "truthy (Str s) = (s \<noteq> [])"
| "truthy (Obj kvs) = True"
| "truthy (Arr vs) = True"

definition js_or :: "jsval \<Rightarrow> jsval \<Rightarrow> jsval" where
  "js_or a b = (if truthy a then a else b)"

definition nullish :: "jsval \<Rightarrow> bool" where
  "nullish v = (v = Undefined \<or> v = Null)"

definition js_coalesce :: "jsval \<Rightarrow> jsval \<Rightarrow> jsval" where
  "js_coalesce a b = (if nullish a then b else a)"

subsection \<open>Property access and object spread\<close>

definition get_prop :: "jsobj \<Rightarrow> string \<Rightarrow> jsval" where
  "get_prop ob k = (case map_of ob k of None \<Rightarrow> Undefined | Some v \<Rightarrow> v)"

text \<open>
  \<open>v.k\<close> on any value. Reading a property of \<open>undefined\<close> or \<open>null\<close> throws. The page
  reads the names \<open>shelter_name\<close>, \<open>location\<close>, \<open>shelter_type\<close> and \<open>rating\<close> only, which no
  prototype of a primitive or of an array defines, so there the answer is \<open>undefined\<close>.
\<close>

fun member :: "jsval \<Rightarrow> string \<Rightarrow> exn + jsval" where
  "member Undefined k = Inl TypeError"
| "member Null k = Inl TypeError"
| "member (Obj ob) k = Inr (get_prop ob k)"
| "member v k = Inr Undefined"

text \<open>\<open>{...ob, k: v}\<close>: an existing property keeps its place, a new one goes last.\<close>

definition set_prop :: "string \<Rightarrow> jsval \<Rightarrow> jsobj \<Rightarrow> jsobj" where
  "set_prop k v ob = AList.update k v ob"

subsection \<open>Strings\<close>

definition lower_char :: "char \<Rightarrow> char" where
  "lower_char c =
     (case map_of (zip ''ABCDEFGHIJKLMNOPQRSTUVWXYZ'' ''abcdefghijklmnopqrstuvwxyz'') c of
        None \<Rightarrow> c
      | Some d \<Rightarrow> d)"

definition toLowerCase :: "string \<Rightarrow> string" where
  "toLowerCase s = map lower_char s"

text \<open>\<open>s.includes(t)\<close>: \<open>t\<close> starts at some position of \<open>s\<close>.\<close>

fun str_includes :: "string \<Rightarrow> string \<Rightarrow> bool" where
  "str_includes [] t = (t = [])"
| "str_includes (c # s) t = (prefix t (c # s) \<or> str_includes s t)"

text \<open>
  \<open>v.toLowerCase()\<close> on any value: only a string has the method. (The page calls it on
  \<open>x || ""\<close>, which is never \<open>undefined\<close> or \<open>null\<close>.)
\<close>

fun call_toLowerCase :: "jsval \<Rightarrow> exn + string" where
  "call_toLowerCase (Str s) = Inr (toLowerCase s)"
| "call_toLowerCase v = Inl TypeError"

subsection \<open>Numbers: \<open>Number(string)\<close> and \<open>>=\<close>\<close>

definition is_ws :: "char \<Rightarrow> bool" where
  "is_ws c = (c \<in> set [CHR 0x09, CHR 0x0A, CHR 0x0B, CHR 0x0C, CHR 0x0D, CHR 0x20])"

definition trim :: "string \<Rightarrow> string" where
  "trim s = rev (dropWhile is_ws (rev (dropWhile is_ws s)))"

definition digit_val :: "char \<Rightarrow> nat option" where
  "digit_val c =
     map_of
       ([(CHR ''0'', 0), (CHR ''1'', 1), (CHR ''2'', 2), (CHR ''3'', 3), (CHR ''4'', 4),
         (CHR ''5'', 5), (CHR ''6'', 6), (CHR ''7'', 7), (CHR ''8'', 8), (CHR ''9'', 9),
         (CHR ''a'', 10), (CHR ''b'', 11), (CHR ''c'', 12), (CHR ''d'', 13), (CHR ''e'', 14),
         (CHR ''f'', 15),
         (CHR ''A'', 10), (CHR ''B'', 11), (CHR ''C'', 12), (CHR ''D'', 13), (CHR ''E'', 14),
         (CHR ''F'', 15)]) c"

definition is_digit :: "char \<Rightarrow> bool" where
  "is_digit c = (case digit_val c of None \<Rightarrow> False | Some d \<Rightarrow> d < 10)"

text \<open>The value of a non-empty run of digits in a radix; \<open>None\<close> when a character is not one.\<close>

fun radix_acc :: "nat \<Rightarrow> nat \<Rightarrow> string \<Rightarrow> nat option" where
  "radix_acc r a [] = Some a"
| "radix_acc r a (c # cs) =
     (case digit_val c of
        None \<Rightarrow> None
      | Some d \<Rightarrow> if d < r then radix_acc r (r * a + d) cs else None)"

definition radix_val :: "nat \<Rightarrow> string \<Rightarrow> nat option" where
  "radix_val r s = (if s = [] then None else radix_acc r 0 s)"

text \<open>\<open>ExponentPart\<close>, optional: \<open>e\<close> or \<open>E\<close>, an optional sign, digits.\<close>

definition exponent_part :: "string \<Rightarrow> int option" where
  "exponent_part s =
     (case s of
        [] \<Rightarrow> Some 0
      | c # t \<Rightarrow>
          if c = CHR ''e'' \<or> c = CHR ''E'' then
            (case t of
               [] \<Rightarrow> None
             | d # u \<Rightarrow>
                 if d = CHR ''-'' then map_option (\<lambda>n. - int n) (radix_val 10 u)
                 else if d = CHR ''+'' then map_option int (radix_val 10 u)
                 else map_option int (radix_val 10 t))
          else None)"

definition scale10 :: "rat \<Rightarrow> int \<Rightarrow> rat" where
  "scale10 x k = (if 0 \<le> k then x * 10 ^ nat k else x / 10 ^ nat (- k))"

text \<open>\<open>StrUnsignedDecimalLiteral\<close>: \<open>Infinity\<close>, or digits with an optional fraction and exponent.\<close>

definition str_unsigned_decimal :: "string \<Rightarrow> jsnum" where
  "str_unsigned_decimal s =
     (if s = ''Infinity'' then PosInf
      else
        let ip = takeWhile is_digit s;
            r1 = dropWhile is_digit s;
            dotted = (r1 \<noteq> [] \<and> hd r1 = CHR ''.'');
            fp = (if dotted then takeWhile is_digit (tl r1) else []);
            r2 = (if dotted then dropWhile is_digit (tl r1) else r1)
        in if ip = [] \<and> fp = [] then NaN
           else
             (case (radix_val 10 (ip @ fp), exponent_part r2) of
                (Some m, Some e) \<Rightarrow> Fin (scale10 (of_nat m) (e - int (length fp)))
              | _ \<Rightarrow> NaN))"

fun negate :: "jsnum \<Rightarrow> jsnum" where
  "negate NaN = NaN"
| "negate NegInf = PosInf"
| "negate PosInf = NegInf"
| "negate (Fin x) = Fin (- x)"

definition radix_literal :: "nat \<Rightarrow> string \<Rightarrow> jsnum" where
  "radix_literal r s = (case radix_val r s of None \<Rightarrow> NaN | Some m \<Rightarrow> Fin (of_nat m))"

text \<open>\<open>StrNumericLiteral\<close>: a signed decimal literal, or an unsigned one with a radix prefix.\<close>

definition str_numeric_literal :: "string \<Rightarrow> jsnum" where
  "str_numeric_literal s =
     (if prefix ''0x'' s \<or> prefix ''0X'' s then radix_literal 16 (drop 2 s)
      else if prefix ''0o'' s \<or> prefix ''0O'' s then radix_literal 8 (drop 2 s)
      else if prefix ''0b'' s \<or> prefix ''0B'' s then radix_literal 2 (drop 2 s)
      else if prefix ''-'' s then negate (str_unsigned_decimal (drop 1 s))
      else if prefix ''+'' s then str_unsigned_decimal (drop 1 s)
      else str_unsigned_decimal s)"

text \<open>\<open>Number(s)\<close> for a string: white space trimmed, the empty string is 0.\<close>

definition Number :: "string \<Rightarrow> jsnum" where
  "Number s = (let t = trim s in if t = [] then Fin 0 else str_numeric_literal t)"

text \<open>
  \<open>ToNumber\<close> of any value, as the comparison with a number applies it. A plain object
  becomes \<open>"[object Object]"\<close>, an array the join of its elements with commas (where \<open>null\<close>
  and \<open>undefined\<close> are empty), and these strings are then read as numbers.
\<close>

fun ToNumber :: "jsval \<Rightarrow> jsnum" where
  "ToNumber Undefined = NaN"
| "ToNumber Null = Fin 0"
| "ToNumber (Bool b) = Fin (if b then 1 else 0)"
| "ToNumber (Num n) = n"
| "ToNumber (Str s) = Number s"
| "ToNumber (Obj kvs) = NaN"
| "ToNumber (Arr []) = Fin 0"
| "ToNumber (Arr [x]) =
     (case x of
        Undefined \<Rightarrow> Fin 0
      | Null \<Rightarrow> Fin 0
      | Bool b \<Rightarrow> NaN
      | _ \<Rightarrow> ToNumber x)"
| "ToNumber (Arr (x # y # zs)) = NaN"

text \<open>\<open>a >= b\<close> on numbers: false as soon as one side is \<open>NaN\<close>.\<close>

fun num_ge :: "jsnum \<Rightarrow> jsnum \<Rightarrow> bool" where
  "num_ge NaN b = False"
| "num_ge a NaN = False"
| "num_ge PosInf b = True"
| "num_ge a NegInf = True"
| "num_ge NegInf b = False"
| "num_ge a PosInf = False"
| "num_ge (Fin x) (Fin y) = (y \<le> x)"

text \<open>\<open>v >= n\<close> with a number on the right: the left side is converted to a number.\<close>

definition js_ge :: "jsval \<Rightarrow> jsnum \<Rightarrow> bool" where
  "js_ge v n = num_ge (ToNumber v) n"

section \<open>The state of the page\<close>

record form_data =
  shelter_type :: string
  rating :: string
  free_places :: string
  location :: string

record page_state =
  shelters :: "jsobj list"
  loading :: bool
  error :: "string option"
  searchQuery :: string
  initialized :: bool
  hydrated :: bool
  formData :: form_data

definition initial_state :: page_state where
  "initial_state =
     \<lparr>shelters = [], loading = True, error = None, searchQuery = [], initialized = False,
      hydrated = False,
      formData = \<lparr>shelter_type = [], rating = [], free_places = [], location = []\<rparr>\<rparr>"

text \<open>
  \<open>handleChange\<close> stores the value under the name of the select that changed. A name that is
  none of the four fields adds a property that nothing reads.
\<close>

definition handleChange :: "string \<Rightarrow> string \<Rightarrow> page_state \<Rightarrow> page_state" where
  "handleChange name v s =
     s\<lparr>formData :=
         (if name = ''shelter_type'' then (formData s)\<lparr>shelter_type := v\<rparr>
          else if name = ''rating'' then (formData s)\<lparr>rating := v\<rparr>
          else if name = ''free_places'' then (formData s)\<lparr>free_places := v\<rparr>
          else if name = ''location'' then (formData s)\<lparr>location := v\<rparr>
          else formData s)\<rparr>"

section \<open>The filter\<close>

text \<open>
  The callback of \<open>shelters.filter\<close>, for one shelter, the text of the search box and the
  criteria of the form. Every \<open>const\<close> of the callback is computed, in the order of the
  source, before the conjunction is returned; a \<open>TypeError\<close> at any of them ends the
  callback, and with it the filter.
\<close>

definition shelter_matches :: "jsobj \<Rightarrow> string \<Rightarrow> form_data \<Rightarrow> exn + bool" where
  "shelter_matches shelter query fd =
     (let details = js_or (get_prop shelter ''shelter_details'') (Obj []) in
      bind_exn (member details ''shelter_name'') (\<lambda>name_v.
      bind_exn (member details ''location'') (\<lambda>location_v.
      bind_exn (member details ''shelter_type'') (\<lambda>type_v.
      bind_exn (member details ''rating'') (\<lambda>rating_v.
        let shelterName = js_or name_v (Str []);
            shelterLocation = js_or location_v (Str []);
            shelterType = js_or type_v (Str []);
            shelterRating = js_coalesce rating_v Null
        in
        bind_exn (call_toLowerCase shelterName) (\<lambda>lname.
        bind_exn (call_toLowerCase shelterLocation) (\<lambda>lloc.
          let nameMatch = str_includes lname (toLowerCase query);
              locationMatch = str_includes lloc (toLowerCase query);
              typeMatch = (shelter_type fd = [] \<or> shelterType = Str (shelter_type fd));
              ratingMatch = (rating fd = [] \<or> js_ge shelterRating (Number (rating fd)))
          in
          bind_exn
            (if location fd = [] then Inr True
             else bind_exn (call_toLowerCase shelterLocation)
                    (\<lambda>l. Inr (str_includes l (toLowerCase (location fd)))))
            (\<lambda>locationFilterMatch.
               Inr ((nameMatch \<or> locationMatch) \<and> typeMatch \<and> ratingMatch \<and>
                    locationFilterMatch)))))))))"

text \<open>\<open>Array.prototype.filter\<close> with a callback that may throw.\<close>

fun filter_array :: "('a \<Rightarrow> exn + bool) \<Rightarrow> 'a list \<Rightarrow> exn + 'a list" where
  "filter_array f [] = Inr []"
| "filter_array f (x # xs) =
     (case f x of
        Inl e \<Rightarrow> Inl e
      | Inr keep \<Rightarrow>
          (case filter_array f xs of
             Inl e \<Rightarrow> Inl e
           | Inr ys \<Rightarrow> Inr (if keep then x # ys else ys)))"

definition filteredShelters :: "jsobj list \<Rightarrow> string \<Rightarrow> form_data \<Rightarrow> exn + jsobj list" where
  "filteredShelters xs query fd = filter_array (\<lambda>shelter. shelter_matches shelter query fd) xs"

text \<open>What a render computes from the state.\<close>

definition rendered_shelters :: "page_state \<Rightarrow> exn + jsobj list" where
  "rendered_shelters s = filteredShelters (shelters s) (searchQuery s) (formData s)"

section \<open>The backend\<close>

text \<open>
  The record store is a collaborator of the page, reached through the query client. An awaited
  query either rejects, which throws at the \<open>await\<close>, or resolves to a response with the
  fields \<open>data\<close> and \<open>error\<close>; the client reports a failed query in \<open>error\<close>, with
  \<open>data\<close> \<open>null\<close>. The three queries of the page are taken as parameters: the profile list,
  the detail row of a profile id (\<open>.single()\<close>: one row object or \<open>null\<close>) and the rows of
  the animals of a shelter id that are not adopted.
\<close>

datatype 'a promise = Rejected | Fulfilled 'a

record 'a response =
  resp_data :: "'a option"
  resp_error :: "jsobj option"

record backend =
  listProfiles :: "(jsobj list) response promise"
  getDetail :: "jsval \<Rightarrow> jsobj response promise"
  countAnimals :: "jsval \<Rightarrow> (jsval list) response promise"

text \<open>A lookup fails when it rejects, or resolves with an error.\<close>

fun lookup_failed :: "'a response promise \<Rightarrow> bool" where
  "lookup_failed Rejected = True"
| "lookup_failed (Fulfilled r) = (resp_error r \<noteq> None)"

section \<open>\<open>fetchShelters\<close>\<close>

text \<open>The object that stands in for missing details; the source writes it out twice.\<close>

definition default_details :: "jsobj \<Rightarrow> jsval" where
  "default_details profile =
     Obj [(''shelter_name'', get_prop profile ''full_name''),
          (''shelter_type'', Str ''animal_shelter''),
          (''location'', js_or (get_prop profile ''address'') (Str ''Unknown'')),
          (''description'', Str []),
          (''website'', Str [])]"

text \<open>The \<open>catch\<close> of the callback: the profile with the default details and no animals.\<close>

definition enrich_failed :: "jsobj \<Rightarrow> jsobj" where
  "enrich_failed profile =
     set_prop ''animals_count'' (Num (Fin 0))
       (set_prop ''shelter_details'' (default_details profile) profile)"

text \<open>
  The callback of \<open>profilesData.map\<close>. It awaits the detail query, then the count query; only
  \<open>data\<close> is taken from each response. A rejection of either is caught, so the callback's
  own promise always fulfils. (What it writes to the console is not modelled.)
\<close>

definition enrich :: "backend \<Rightarrow> jsobj \<Rightarrow> jsobj" where
  "enrich b profile =
     (case getDetail b (get_prop profile ''id'') of
        Rejected \<Rightarrow> enrich_failed profile
      | Fulfilled detail_resp \<Rightarrow>
          (case countAnimals b (get_prop profile ''id'') of
             Rejected \<Rightarrow> enrich_failed profile
           | Fulfilled count_resp \<Rightarrow>
               let shelterDetails = (case resp_data detail_resp of None \<Rightarrow> Null | Some d \<Rightarrow> Obj d);
                   animalCount_length =
                     (case resp_data count_resp of
                        None \<Rightarrow> Undefined
                      | Some rows \<Rightarrow> Num (Fin (of_nat (length rows))))
               in set_prop ''animals_count'' (js_or animalCount_length (Num (Fin 0)))
                    (set_prop ''shelter_details''
                       (js_or shelterDetails (default_details profile)) profile)))"

text \<open>The outer \<open>catch\<close> followed by \<open>finally\<close>.\<close>

definition fetch_failed :: "page_state \<Rightarrow> page_state" where
  "fetch_failed s =
     s\<lparr>error := Some ''Failed to load shelters. Please try again.'',
       initialized := True, loading := False\<rparr>"

text \<open>
  \<open>fetchShelters\<close>, from the state it starts in to the state it leaves once its promise has
  settled. \<open>Promise.all\<close> keeps the order of the profiles, and none of the promises it waits
  for rejects. The background repair job is started and forgotten; whatever it does to the
  store is part of what the queries answer.
\<close>

definition fetchShelters :: "backend \<Rightarrow> page_state \<Rightarrow> page_state" where
  "fetchShelters b s0 =
     (let s = s0\<lparr>loading := True, error := None\<rparr> in
      case listProfiles b of
        Rejected \<Rightarrow> fetch_failed s
      | Fulfilled resp \<Rightarrow>
          if resp_error resp \<noteq> None then fetch_failed s
          else
            (case resp_data resp of
               None \<Rightarrow> s\<lparr>shelters := [], loading := False, initialized := True\<rparr>
             | Some profilesData \<Rightarrow>
                 if length profilesData = 0
                 then s\<lparr>shelters := [], loading := False, initialized := True\<rparr>
                 else s\<lparr>shelters := map (enrich b) profilesData, initialized := True,
                        loading := False\<rparr>))"

text \<open>
  The life of the page: it mounts in the initial state, an effect marks it hydrated, a second
  effect calls \<open>fetchShelters\<close> once it is hydrated and not yet initialized, and the visitor
  types in the search box and changes the selects of the form.
\<close>

inductive reachable :: "backend \<Rightarrow> page_state \<Rightarrow> bool" for b :: backend where
  mounted: "reachable b initial_state"
| hydration: "reachable b s \<Longrightarrow> reachable b (s\<lparr>hydrated := True\<rparr>)"
| fetched: "reachable b s \<Longrightarrow> hydrated s \<Longrightarrow> \<not> initialized s \<Longrightarrow> reachable b (fetchShelters b s)"
| searched: "reachable b s \<Longrightarrow> reachable b (s\<lparr>searchQuery := q\<rparr>)"
| changed: "reachable b s \<Longrightarrow> reachable b (handleChange name v s)"

section \<open>The criteria of the filter, as the specification words them\<close>

text \<open>
  A field of the detail record of a shelter; \<open>undefined\<close> when the shelter has no detail
  record or the record has no such field.
\<close>

definition detail_field :: "jsobj \<Rightarrow> string \<Rightarrow> jsval" where
  "detail_field shelter k =
     (case get_prop shelter ''shelter_details'' of Obj d \<Rightarrow> get_prop d k | _ \<Rightarrow> Undefined)"

text \<open>The text of a field, empty when the field is missing.\<close>

fun text_of :: "jsval \<Rightarrow> string" where
  "text_of (Str s) = s"
| "text_of v = []"

text \<open>
  A text field holds a string or is missing: \<open>undefined\<close>, \<open>null\<close> or another value that
  \<open>||\<close> replaces by the empty string.
\<close>

fun text_or_missing :: "jsval \<Rightarrow> bool" where
  "text_or_missing (Str s) = True"
| "text_or_missing v = (\<not> truthy v)"

definition text_fields_ok :: "jsobj \<Rightarrow> bool" where
  "text_fields_ok shelter =
     (text_or_missing (detail_field shelter ''shelter_name'') \<and>
      text_or_missing (detail_field shelter ''location''))"

text \<open>Case-insensitive substring match.\<close>

definition contains_ci :: "string \<Rightarrow> string \<Rightarrow> bool" where
  "contains_ci s t = str_includes (toLowerCase s) (toLowerCase t)"

definition text_criterion :: "jsobj \<Rightarrow> string \<Rightarrow> bool" where
  "text_criterion shelter query =
     (contains_ci (text_of (detail_field shelter ''shelter_name'')) query \<or>
      contains_ci (text_of (detail_field shelter ''location'')) query)"

definition type_criterion :: "jsobj \<Rightarrow> form_data \<Rightarrow> bool" where
  "type_criterion shelter fd =
     (shelter_type fd = [] \<or> detail_field shelter ''shelter_type'' = Str (shelter_type fd))"

definition rating_criterion :: "jsobj \<Rightarrow> form_data \<Rightarrow> bool" where
  "rating_criterion shelter fd =
     (rating fd = [] \<or>
      num_ge (ToNumber (js_coalesce (detail_field shelter ''rating'') Null)) (Number (rating fd)))"

definition location_criterion :: "jsobj \<Rightarrow> form_data \<Rightarrow> bool" where
  "location_criterion shelter fd =
     (location fd = [] \<or>
      contains_ci (text_of (detail_field shelter ''location'')) (location fd))"

definition spec_predicate :: "jsobj \<Rightarrow> string \<Rightarrow> form_data \<Rightarrow> bool" where
  "spec_predicate shelter query fd =
     (text_criterion shelter query \<and> type_criterion shelter fd \<and>
      rating_criterion shelter fd \<and> location_criterion shelter fd)"

text \<open>
  The text columns of the store hold strings or nothing: the name and the address of a profile,
  the name and the location of a detail row.
\<close>

definition text_columns :: "backend \<Rightarrow> bool" where
  "text_columns b =
     ((\<forall>r ps p. listProfiles b = Fulfilled r \<and> resp_data r = Some ps \<and> p \<in> set ps \<longrightarrow>
          text_or_missing (get_prop p ''full_name'') \<and>
          text_or_missing (get_prop p ''address'')) \<and>
      (\<forall>i r d. getDetail b i = Fulfilled r \<and> resp_data r = Some d \<longrightarrow>
          text_or_missing (get_prop d ''shelter_name'') \<and>
          text_or_missing (get_prop d ''location'')))"



text \<open>All four criteria of the form empty.\<close>

definition no_criteria :: form_data where
  "no_criteria = \<lparr>shelter_type = [], rating = [], free_places = [], location = []\<rparr>"

section \<open>What \<open>fetchShelters\<close> promises of a record\<close>

fun is_object :: "jsval \<Rightarrow> bool" where
  "is_object (Obj d) = True"
| "is_object v = False"

fun is_count :: "jsval \<Rightarrow> bool" where
  "is_count (Num (Fin x)) = (0 \<le> x \<and> of_int \<lfloor>x\<rfloor> = x)"
| "is_count v = False"

definition enriched_ok :: "jsobj \<Rightarrow> bool" where
  "enriched_ok e = (is_object (get_prop e ''shelter_details'') \<and> is_count (get_prop e ''animals_count''))"

text \<open>The record of a profile whose lookups answered \<open>details\<close> and \<open>rows\<close>.\<close>

definition enriched_record :: "jsobj \<Rightarrow> jsobj option \<Rightarrow> jsval list option \<Rightarrow> jsobj" where
  "enriched_record profile details rows =
     set_prop ''animals_count''
       (Num (Fin (of_nat (case rows of None \<Rightarrow> 0 | Some rs \<Rightarrow> length rs))))
       (set_prop ''shelter_details''
          (case details of None \<Rightarrow> default_details profile | Some d \<Rightarrow> Obj d) profile)"


section \<open>Sample inputs\<close>

definition sample_profile :: jsobj where
  "sample_profile =
     [(''id'', Str ''p1''), (''full_name'', Str ''Oasis''), (''user_type'', Str ''shelter'')]"

definition sample_details :: jsobj where
  "sample_details =
     [(''profile_id'', Str ''p1''), (''shelter_name'', Str ''Oasis''),
      (''shelter_type'', Str ''clinic''), (''location'', Str ''Kyiv'')]"

definition sample_shelter :: jsobj where
  "sample_shelter = sample_profile @ [(''shelter_details'', Obj sample_details)]"

text \<open>The two shelters of the example in the specification.\<close>

definition oasis :: jsobj where
  "oasis =
     [(''id'', Str ''s1''),
      (''shelter_details'',
       Obj [(''shelter_name'', Str ''Oasis''), (''location'', Str ''Kyiv''),
            (''rating'', Num (Fin 4))])]"

definition haven :: jsobj where
  "haven =
     [(''id'', Str ''s2''),
      (''shelter_details'',
       Obj [(''shelter_name'', Str ''Haven''), (''location'', Str ''Lviv''),
            (''rating'', Num (Fin 2))])]"

definition ok_response :: "'a \<Rightarrow> 'a response promise" where
  "ok_response d = Fulfilled \<lparr>resp_data = Some d, resp_error = None\<rparr>"

definition error_response :: "'a response promise" where
  "error_response =
     Fulfilled \<lparr>resp_data = None, resp_error = Some [(''message'', Str ''no rows'')]\<rparr>"

text \<open>A store with one profile, its detail row and three animals.\<close>

definition sample_backend :: backend where
  "sample_backend =
     \<lparr>listProfiles = ok_response [sample_profile],
      getDetail = (\<lambda>i. ok_response sample_details),
      countAnimals = (\<lambda>i. ok_response [Obj [(''id'', Str ''a1'')], Obj [(''id'', Str ''a2'')],
                                        Obj [(''id'', Str ''a3'')]])\<rparr>"

text \<open>The same store where the detail lookup resolves with an error.\<close>

definition no_detail_backend :: backend where
  "no_detail_backend = sample_backend\<lparr>getDetail := (\<lambda>i. error_response)\<rparr>"

text \<open>The same store where the count lookup rejects.\<close>

definition count_rejects_backend :: backend where
  "count_rejects_backend = sample_backend\<lparr>countAnimals := (\<lambda>i. Rejected)\<rparr>"

text \<open>A store whose profile query fails, and one with no profile.\<close>

definition failing_backend :: backend where
  "failing_backend = sample_backend\<lparr>listProfiles := error_response\<rparr>"

definition empty_backend :: backend where
  "empty_backend = sample_backend\<lparr>listProfiles := ok_response []\<rparr>"

definition hydrated_state :: page_state where
  "hydrated_state = initial_state\<lparr>hydrated := True\<rparr>"


section \<open>Properties of the primitives\<close>

text \<open>
  \<open>str_includes\<close> is the substring relation.
\<close>

lemma str_includes_iff: "str_includes s t \<longleftrightarrow> (\<exists>p r. s = p @ t @ r)"
proof (induction s)
  case Nil
  then show ?case by auto
next
  case (Cons c s)
  show ?case
  proof
    assume "str_includes (c # s) t"
    then consider "prefix t (c # s)" | "str_includes s t" by auto
    then show "\<exists>p r. c # s = p @ t @ r"
    proof cases
      case 1
      then obtain r where "c # s = t @ r" by (auto simp: prefix_def)
      then have "c # s = [] @ t @ r" by simp
      then show ?thesis by blast
    next
      case 2
      with Cons.IH obtain p r where "s = p @ t @ r" by blast
      then have "c # s = (c # p) @ t @ r" by simp
      then show ?thesis by blast
    qed
  next
    assume "\<exists>p r. c # s = p @ t @ r"
    then obtain p r where eq: "c # s = p @ t @ r" by blast
    show "str_includes (c # s) t"
    proof (cases p)
      case Nil
      with eq have "prefix t (c # s)" by (simp add: prefix_def)
      then show ?thesis by simp
    next
      case (Cons a p')
      with eq have "s = p' @ t @ r" by simp
      with Cons.IH have "str_includes s t" by blast
      then show ?thesis by simp
    qed
  qed
qed


lemma get_prop_set_prop:
  "get_prop (set_prop k v ob) k' = (if k' = k then v else get_prop ob k')"
  by (simp add: get_prop_def set_prop_def update_conv')

lemma filter_array_total:
  "(\<And>x. x \<in> set xs \<Longrightarrow> f x = Inr (g x)) \<Longrightarrow> filter_array f xs = Inr (filter g xs)"
  by (induction xs) auto

lemma filter_array_Inr:
  "filter_array f xs = Inr ys \<Longrightarrow>
     ys = filter (\<lambda>x. f x = Inr True) xs \<and> (\<forall>x \<in> set xs. f x = Inr True \<or> f x = Inr False)"
  by (induction xs arbitrary: ys) (auto split: sum.splits if_splits)

lemma filter_array_again: "filter_array f xs = Inr ys \<Longrightarrow> filter_array f ys = Inr ys"
proof -
  assume a: "filter_array f xs = Inr ys"
  from filter_array_Inr [OF a] have ys: "ys = filter (\<lambda>x. f x = Inr True) xs" by blast
  have "\<And>x. x \<in> set ys \<Longrightarrow> f x = Inr ((\<lambda>_. True) x)" using ys by simp
  from filter_array_total [of ys f "\<lambda>_. True", OF this] show ?thesis by simp
qed


section \<open>Theorems about the filter\<close>

text \<open>
  The callback reads the four detail fields without throwing, whatever the shelter holds
  under \<open>shelter_details\<close>; only \<open>toLowerCase\<close> on a name or location that is neither
  a string nor missing throws.
\<close>

lemma details_member:
  "member (js_or (get_prop shelter ''shelter_details'') (Obj [])) k = Inr (detail_field shelter k)"
  by (cases "get_prop shelter ''shelter_details''")
     (auto simp: js_or_def detail_field_def get_prop_def)

lemma call_toLowerCase_or:
  "call_toLowerCase (js_or v (Str [])) =
     (if text_or_missing v then Inr (toLowerCase (text_of v)) else Inl TypeError)"
  by (cases v) (auto simp: js_or_def toLowerCase_def)

lemma type_match_or:
  "(t = [] \<or> js_or v (Str []) = Str t) = (t = [] \<or> v = Str t)"
  by (cases v) (auto simp: js_or_def)

lemma shelter_matches_eq:
  "shelter_matches shelter query fd =
     (if text_fields_ok shelter then Inr (spec_predicate shelter query fd) else Inl TypeError)"
  unfolding shelter_matches_def Let_def details_member type_match_or
  by (simp add: bind_exn_def call_toLowerCase_or text_fields_ok_def spec_predicate_def
        text_criterion_def type_criterion_def rating_criterion_def location_criterion_def
        contains_ci_def js_ge_def)

lemma filteredShelters_eq:
  "filteredShelters xs query fd =
     (if list_all text_fields_ok xs then Inr (filter (\<lambda>sh. spec_predicate sh query fd) xs)
      else Inl TypeError)"
  unfolding filteredShelters_def
  by (induction xs) (simp_all add: shelter_matches_eq)

text \<open>
  The example of the specification: the query \<open>kyiv\<close> and the minimum rating 3 each keep
  Oasis only, and a query that matches nothing keeps nothing under any rating.
\<close>

lemma specification_example:
  "filteredShelters [oasis, haven] ''kyiv'' no_criteria = Inr [oasis]"
  "filteredShelters [oasis, haven] [] (no_criteria\<lparr>rating := ''3''\<rparr>) = Inr [oasis]"
  "filteredShelters [oasis, haven] ''zzz'' (no_criteria\<lparr>rating := ''3''\<rparr>) = Inr []"
  by code_simp+



text \<open>
  C7. Filtering is idempotent: the filter applied to its own output, with the same query and
  criteria, returns that output again (and when the first application throws there is no
  output to filter).
\<close>

theorem filter_idempotent:
  "bind_exn (filteredShelters xs query fd) (\<lambda>ys. filteredShelters ys query fd) =
     filteredShelters xs query fd"
proof (cases "filteredShelters xs query fd")
  case (Inl e)
  then show ?thesis by (simp add: bind_exn_def)
next
  case (Inr ys)
  then have "filter_array (\<lambda>shelter. shelter_matches shelter query fd) ys = Inr ys"
    unfolding filteredShelters_def by (rule filter_array_again)
  with Inr show ?thesis by (simp add: bind_exn_def filteredShelters_def)
qed

theorem filter_idempotent_witness:
  "filteredShelters [sample_shelter, [(''id'', Str ''p2'')]] ''kyiv'' no_criteria = Inr [sample_shelter] \<and>
   filteredShelters [sample_shelter] ''kyiv'' no_criteria = Inr [sample_shelter]"
proof -
  have a: "filteredShelters [sample_shelter, [(''id'', Str ''p2'')]] ''kyiv'' no_criteria = Inr [sample_shelter]"
    by code_simp
  from filter_idempotent [of "[sample_shelter, [(''id'', Str ''p2'')]]" "''kyiv''" no_criteria] a
  show ?thesis by (simp add: bind_exn_def)
qed

text \<open>
  C8. The \<open>free_places\<close> criterion has no effect: two settings of the form that agree on
  the type, the rating and the location give the same filtered list, for every list of shelters
  and every query.
\<close>

theorem free_places_ignored:
  assumes "shelter_type fd1 = shelter_type fd2" and "rating fd1 = rating fd2"
    and "location fd1 = location fd2"
  shows "filteredShelters xs query fd1 = filteredShelters xs query fd2"
  unfolding filteredShelters_def shelter_matches_def assms by (rule refl)

theorem free_places_ignored_witness:
  "filteredShelters [sample_shelter] ''kyiv'' (no_criteria\<lparr>free_places := ''5''\<rparr>) =
     filteredShelters [sample_shelter] ''kyiv'' (no_criteria\<lparr>free_places := ''20''\<rparr>) \<and>
   filteredShelters [sample_shelter] ''kyiv'' (no_criteria\<lparr>free_places := ''5''\<rparr>) =
     Inr [sample_shelter]"
proof -
  have "filteredShelters [sample_shelter] ''kyiv'' (no_criteria\<lparr>free_places := ''5''\<rparr>) =
     filteredShelters [sample_shelter] ''kyiv'' (no_criteria\<lparr>free_places := ''20''\<rparr>)"
    by (rule free_places_ignored) (simp_all add: no_criteria_def)
  moreover have "filteredShelters [sample_shelter] ''kyiv'' (no_criteria\<lparr>free_places := ''5''\<rparr>) =
     Inr [sample_shelter]"
    by code_simp
  ultimately show ?thesis by simp
qed

text \<open>
  A missing detail record, or a record whose name and location are missing or strings, is
  within what the filter accepts.
\<close>

lemma missing_details_ok:
  "nullish (get_prop shelter ''shelter_details'') \<Longrightarrow> text_fields_ok shelter"
  by (auto simp: nullish_def text_fields_ok_def detail_field_def)

lemma missing_fields_ok:
  "get_prop shelter ''shelter_details'' = Obj d \<Longrightarrow>
   nullish (get_prop d ''shelter_name'') \<or> (\<exists>s. get_prop d ''shelter_name'' = Str s) \<Longrightarrow>
   nullish (get_prop d ''location'') \<or> (\<exists>s. get_prop d ''location'' = Str s) \<Longrightarrow>
   text_fields_ok shelter"
  by (auto simp: nullish_def text_fields_ok_def detail_field_def)










section \<open>Theorems about \<open>fetchShelters\<close>\<close>

lemma enrich_failed_record: "enrich_failed p = enriched_record p None None"
  by (simp add: enrich_failed_def enriched_record_def)

lemma count_or_zero:
  "js_or (case rows of None \<Rightarrow> Undefined | Some rs \<Rightarrow> Num (Fin (of_nat (length rs)))) (Num (Fin 0)) =
     Num (Fin (of_nat (case rows of None \<Rightarrow> 0 | Some rs \<Rightarrow> length rs)))"
  by (cases rows) (auto simp: js_or_def)

lemma details_or_default:
  "js_or (case d of None \<Rightarrow> Null | Some x \<Rightarrow> Obj x) dflt = (case d of None \<Rightarrow> dflt | Some x \<Rightarrow> Obj x)"
  by (cases d) (auto simp: js_or_def)

lemma enrich_rejected:
  "getDetail b (get_prop p ''id'') = Rejected \<or> countAnimals b (get_prop p ''id'') = Rejected \<Longrightarrow>
   enrich b p = enriched_record p None None"
  by (auto simp: enrich_def enrich_failed_record split: promise.splits)

lemma enrich_fulfilled:
  "getDetail b (get_prop p ''id'') = Fulfilled dr \<Longrightarrow>
   countAnimals b (get_prop p ''id'') = Fulfilled cr \<Longrightarrow>
   enrich b p = enriched_record p (resp_data dr) (resp_data cr)"
  by (simp add: enrich_def enriched_record_def count_or_zero details_or_default)


lemma enriched_record_ok: "enriched_ok (enriched_record p d rows)"
  by (cases d) (simp_all add: enriched_ok_def enriched_record_def get_prop_set_prop default_details_def)

lemma enrich_ok: "enriched_ok (enrich b p)"
  by (cases "getDetail b (get_prop p ''id'')"; cases "countAnimals b (get_prop p ''id'')")
     (simp_all add: enrich_rejected enrich_fulfilled enriched_record_ok)


lemma fetchShelters_profiles:
  assumes "listProfiles b = Fulfilled r" and "resp_error r = None" and "resp_data r = Some ps"
  shows "fetchShelters b s =
           s\<lparr>shelters := map (enrich b) ps, loading := False, error := None, initialized := True\<rparr>"
  using assms by (cases ps) (simp_all add: fetchShelters_def)

lemma fetchShelters_failed:
  assumes "lookup_failed (listProfiles b)"
  shows "fetchShelters b s =
           s\<lparr>loading := False, error := Some ''Failed to load shelters. Please try again.'',
             initialized := True\<rparr>"
  using assms by (cases "listProfiles b") (auto simp: fetchShelters_def fetch_failed_def)

lemma fetchShelters_shelters_cases:
  "shelters (fetchShelters b s) = shelters s \<or> (\<exists>ps. shelters (fetchShelters b s) = map (enrich b) ps)"
proof (cases "listProfiles b")
  case Rejected
  then show ?thesis by (simp add: fetchShelters_def fetch_failed_def)
next
  case (Fulfilled r)
  show ?thesis
  proof (cases "resp_error r")
    case None
    show ?thesis
    proof (cases "resp_data r")
      case N: None
      with Fulfilled None have "shelters (fetchShelters b s) = map (enrich b) []"
        by (simp add: fetchShelters_def)
      then show ?thesis by blast
    next
      case (Some ps)
      with Fulfilled None show ?thesis by (auto simp: fetchShelters_profiles)
    qed
  next
    case (Some e)
    with Fulfilled show ?thesis by (simp add: fetchShelters_def fetch_failed_def)
  qed
qed

lemma fetchShelters_initialized: "initialized (fetchShelters b s)"
  by (auto simp: fetchShelters_def fetch_failed_def Let_def split: promise.splits option.splits)

text \<open>
  Until \<open>fetchShelters\<close> has run the page holds no shelter, and every shelter it holds
  afterwards is a record that \<open>fetchShelters\<close> built.
\<close>

lemma reachable_invariant:
  "reachable b s \<Longrightarrow> (\<not> initialized s \<longrightarrow> shelters s = []) \<and> list_all enriched_ok (shelters s)"
proof (induction rule: reachable.induct)
  case mounted
  then show ?case by (simp add: initial_state_def)
next
  case (hydration s)
  then show ?case by simp
next
  case (fetched s)
  from fetchShelters_shelters_cases [of b s] fetched.IH
  have "list_all enriched_ok (shelters (fetchShelters b s))"
    by (auto simp: list_all_iff enrich_ok)
  then show ?case by (simp add: fetchShelters_initialized)
next
  case (searched s q)
  then show ?case by simp
next
  case (changed s name v)
  then show ?case by (simp add: handleChange_def)
qed

lemma reachable_hydrated_state: "reachable b hydrated_state"
  unfolding hydrated_state_def by (rule reachable.hydration) (rule reachable.mounted)

lemma sample_list: "listProfiles sample_backend = Fulfilled \<lparr>resp_data = Some [sample_profile], resp_error = None\<rparr>"
  by (simp add: sample_backend_def ok_response_def)

text \<open>
  When the text columns of the store hold strings or nothing, so do the names and locations of
  the shelters of the page, and a render does not throw: it shows the shelters that satisfy the
  criteria.
\<close>

lemma text_or_default: "text_or_missing v \<Longrightarrow> text_or_missing (js_or v (Str s))"
  by (cases v) (auto simp: js_or_def)

lemma enriched_record_text:
  assumes "case d of
             None \<Rightarrow> text_or_missing (get_prop p ''full_name'') \<and>
                     text_or_missing (get_prop p ''address'')
           | Some x \<Rightarrow> text_or_missing (get_prop x ''shelter_name'') \<and>
                       text_or_missing (get_prop x ''location'')"
  shows "text_fields_ok (enriched_record p d rows)"
  using assms
  by (cases d)
     (simp_all add: text_fields_ok_def detail_field_def enriched_record_def get_prop_set_prop
        default_details_def text_or_default, simp_all add: get_prop_def text_or_default)

lemma enrich_text:
  assumes "text_columns b" and "text_or_missing (get_prop p ''full_name'')"
    and "text_or_missing (get_prop p ''address'')"
  shows "text_fields_ok (enrich b p)"
proof (cases "getDetail b (get_prop p ''id'')")
  case Rejected
  with assms show ?thesis by (simp add: enrich_rejected enriched_record_text)
next
  case dr: (Fulfilled dr)
  show ?thesis
  proof (cases "countAnimals b (get_prop p ''id'')")
    case Rejected
    with assms show ?thesis by (simp add: enrich_rejected enriched_record_text)
  next
    case (Fulfilled cr)
    have "text_fields_ok (enriched_record p (resp_data dr) (resp_data cr))"
    proof (rule enriched_record_text, cases "resp_data dr")
      case None
      with assms show "case resp_data dr of
             None \<Rightarrow> text_or_missing (get_prop p ''full_name'') \<and>
                     text_or_missing (get_prop p ''address'')
           | Some x \<Rightarrow> text_or_missing (get_prop x ''shelter_name'') \<and>
                       text_or_missing (get_prop x ''location'')" by simp
    next
      case (Some d)
      with assms(1) dr show "case resp_data dr of
             None \<Rightarrow> text_or_missing (get_prop p ''full_name'') \<and>
                     text_or_missing (get_prop p ''address'')
           | Some x \<Rightarrow> text_or_missing (get_prop x ''shelter_name'') \<and>
                       text_or_missing (get_prop x ''location'')"
        unfolding text_columns_def by auto
    qed
    with dr Fulfilled show ?thesis by (simp add: enrich_fulfilled)
  qed
qed

lemma fetchShelters_shelters_from:
  "shelters (fetchShelters b s) = shelters s \<or> shelters (fetchShelters b s) = [] \<or>
   (\<exists>r ps. listProfiles b = Fulfilled r \<and> resp_data r = Some ps \<and>
            shelters (fetchShelters b s) = map (enrich b) ps)"
proof (cases "listProfiles b")
  case Rejected
  then show ?thesis by (simp add: fetchShelters_def fetch_failed_def)
next
  case (Fulfilled r)
  show ?thesis
  proof (cases "resp_error r")
    case None
    show ?thesis
    proof (cases "resp_data r")
      case N: None
      with Fulfilled None show ?thesis by (simp add: fetchShelters_def)
    next
      case (Some ps)
      with Fulfilled None show ?thesis by (auto simp: fetchShelters_profiles)
    qed
  next
    case (Some e)
    with Fulfilled show ?thesis by (simp add: fetchShelters_def fetch_failed_def)
  qed
qed

lemma reachable_text_fields:
  assumes "text_columns b"
  shows "reachable b s \<Longrightarrow> list_all text_fields_ok (shelters s)"
proof (induction rule: reachable.induct)
  case mounted
  then show ?case by (simp add: initial_state_def)
next
  case (hydration s)
  then show ?case by simp
next
  case (fetched s)
  from fetchShelters_shelters_from [of b s] show ?case
  proof (elim disjE exE conjE)
    assume "shelters (fetchShelters b s) = shelters s"
    with fetched.IH show ?thesis by simp
  next
    assume "shelters (fetchShelters b s) = []"
    then show ?thesis by simp
  next
    fix r ps
    assume l: "listProfiles b = Fulfilled r" and d: "resp_data r = Some ps"
      and e: "shelters (fetchShelters b s) = map (enrich b) ps"
    have "text_fields_ok (enrich b p)" if "p \<in> set ps" for p
    proof (rule enrich_text [OF assms])
      from assms l d that show "text_or_missing (get_prop p ''full_name'')"
        unfolding text_columns_def by blast
      from assms l d that show "text_or_missing (get_prop p ''address'')"
        unfolding text_columns_def by blast
    qed
    with e show ?thesis by (simp add: list_all_iff)
  qed
next
  case (searched s q)
  then show ?case by simp
next
  case (changed s name v)
  then show ?case by (simp add: handleChange_def)
qed

lemma render_never_throws:
  assumes "text_columns b" and "reachable b s"
  shows "rendered_shelters s =
           Inr (filter (\<lambda>sh. spec_predicate sh (searchQuery s) (formData s)) (shelters s))"
  using reachable_text_fields [OF assms] by (simp add: rendered_shelters_def filteredShelters_eq)



text \<open>
  C2, as the code has it. Every profile has its record at its position, whatever lookups
  fail. When the detail or the count lookup of a profile rejects, its record has the default
  details and no animals. When both resolve, each part is defaulted by itself: the details
  are the default ones when the detail response has no data, the number of animals is 0 when
  the count response has no data, and the other part is what its lookup returned.
\<close>

theorem failed_lookup_defaults:
  assumes "listProfiles b = Fulfilled r" and "resp_error r = None" and "resp_data r = Some ps"
    and "i < length ps"
  shows "length (shelters (fetchShelters b s)) = length ps \<and>
         (getDetail b (get_prop (ps ! i) ''id'') = Rejected \<or>
          countAnimals b (get_prop (ps ! i) ''id'') = Rejected \<longrightarrow>
            shelters (fetchShelters b s) ! i = enriched_record (ps ! i) None None) \<and>
         (\<forall>dr cr. getDetail b (get_prop (ps ! i) ''id'') = Fulfilled dr \<and>
                  countAnimals b (get_prop (ps ! i) ''id'') = Fulfilled cr \<longrightarrow>
            shelters (fetchShelters b s) ! i =
              enriched_record (ps ! i) (resp_data dr) (resp_data cr))"
proof -
  have sh: "shelters (fetchShelters b s) = map (enrich b) ps"
    using assms(1-3) by (simp add: fetchShelters_profiles)
  show ?thesis unfolding sh using assms(4) by (auto simp: enrich_rejected enrich_fulfilled)
qed

theorem failed_lookup_defaults_witness:
  "listProfiles count_rejects_backend =
     Fulfilled \<lparr>resp_data = Some [sample_profile], resp_error = None\<rparr> \<and>
   countAnimals count_rejects_backend (get_prop ([sample_profile] ! 0) ''id'') = Rejected \<and>
   shelters (fetchShelters count_rejects_backend hydrated_state) ! 0 =
     sample_profile @
     [(''shelter_details'',
       Obj [(''shelter_name'', Str ''Oasis''), (''shelter_type'', Str ''animal_shelter''),
            (''location'', Str ''Unknown''), (''description'', Str []), (''website'', Str [])]),
      (''animals_count'', Num (Fin 0))]"
proof -
  let ?r = "\<lparr>resp_data = Some [sample_profile], resp_error = None\<rparr> :: (jsobj list) response"
  have l: "listProfiles count_rejects_backend = Fulfilled ?r"
    by (simp add: count_rejects_backend_def sample_backend_def ok_response_def)
  have c: "countAnimals count_rejects_backend (get_prop ([sample_profile] ! 0) ''id'') = Rejected"
    by (simp add: count_rejects_backend_def)
  have i: "(0::nat) < length [sample_profile]" by simp
  from c failed_lookup_defaults [OF l _ _ i, of hydrated_state]
  have "shelters (fetchShelters count_rejects_backend hydrated_state) ! 0 =
          enriched_record ([sample_profile] ! 0) None None"
    by simp
  then have "shelters (fetchShelters count_rejects_backend hydrated_state) ! 0 =
     sample_profile @
     [(''shelter_details'',
       Obj [(''shelter_name'', Str ''Oasis''), (''shelter_type'', Str ''animal_shelter''),
            (''location'', Str ''Unknown''), (''description'', Str []), (''website'', Str [])]),
      (''animals_count'', Num (Fin 0))]"
    by (simp add: enriched_record_def set_prop_def sample_profile_def default_details_def
        get_prop_def js_or_def)
  with l c show ?thesis by simp
qed

text \<open>
  C2, as stated, fails when the detail lookup resolves with an error and the count lookup
  succeeds: the record has the default details and the three animals that were counted.
\<close>

theorem detail_error_keeps_count:
  "lookup_failed (getDetail no_detail_backend (get_prop sample_profile ''id'')) \<and>
   listProfiles no_detail_backend =
     Fulfilled \<lparr>resp_data = Some [sample_profile], resp_error = None\<rparr> \<and>
   map (\<lambda>e. get_prop e ''animals_count'') (shelters (fetchShelters no_detail_backend hydrated_state)) =
     [Num (Fin 3)]"
  by (simp add: no_detail_backend_def sample_backend_def ok_response_def error_response_def
      fetchShelters_def enrich_def sample_profile_def get_prop_def set_prop_def js_or_def
      default_details_def)

text \<open>
  C4. When the profile query fails, \<open>fetchShelters\<close> called by the page (hydrated, not
  yet initialized) sets the error message, and the list of shelters and what is rendered of
  it are empty; the loading indicator is off.
\<close>

theorem profile_failure_shows_nothing:
  assumes "reachable b s" and "hydrated s" and "\<not> initialized s"
    and "lookup_failed (listProfiles b)"
  shows "error (fetchShelters b s) = Some ''Failed to load shelters. Please try again.'' \<and>
         shelters (fetchShelters b s) = [] \<and>
         rendered_shelters (fetchShelters b s) = Inr [] \<and>
         \<not> loading (fetchShelters b s) \<and> initialized (fetchShelters b s)"
proof -
  from reachable_invariant [OF assms(1)] assms(3) have "shelters s = []" by simp
  then show ?thesis
    by (simp add: fetchShelters_failed [OF assms(4)] rendered_shelters_def filteredShelters_def)
qed

theorem profile_failure_shows_nothing_witness:
  "reachable failing_backend hydrated_state \<and> hydrated hydrated_state \<and>
   \<not> initialized hydrated_state \<and> lookup_failed (listProfiles failing_backend) \<and>
   error (fetchShelters failing_backend hydrated_state) =
     Some ''Failed to load shelters. Please try again.'' \<and>
   shelters (fetchShelters failing_backend hydrated_state) = [] \<and>
   rendered_shelters (fetchShelters failing_backend hydrated_state) = Inr [] \<and>
   \<not> loading (fetchShelters failing_backend hydrated_state)"
proof -
  have r: "reachable failing_backend hydrated_state" by (rule reachable_hydrated_state)
  have h: "hydrated hydrated_state" by (simp add: hydrated_state_def)
  have i: "\<not> initialized hydrated_state" by (simp add: hydrated_state_def initial_state_def)
  have f: "lookup_failed (listProfiles failing_backend)"
    by (simp add: failing_backend_def error_response_def)
  from r h i f profile_failure_shows_nothing [OF r h i f] show ?thesis by simp
qed

text \<open>
  C5. Every record that the page holds, all of them built by \<open>fetchShelters\<close>, has an
  object under \<open>shelter_details\<close> and a non-negative integer under \<open>animals_count\<close>.
\<close>

theorem shelters_invariant:
  assumes "reachable b s"
  shows "list_all enriched_ok (shelters s)"
  using reachable_invariant [OF assms] by simp

theorem shelters_invariant_witness:
  "reachable sample_backend (fetchShelters sample_backend hydrated_state) \<and>
   shelters (fetchShelters sample_backend hydrated_state) \<noteq> [] \<and>
   list_all enriched_ok (shelters (fetchShelters sample_backend hydrated_state))"
proof -
  have r: "reachable sample_backend (fetchShelters sample_backend hydrated_state)"
    by (rule reachable.fetched [OF reachable_hydrated_state])
       (simp_all add: hydrated_state_def initial_state_def)
  have n: "shelters (fetchShelters sample_backend hydrated_state) \<noteq> []"
    by (simp add: fetchShelters_profiles [OF sample_list])
  from r n shelters_invariant [OF r] show ?thesis by simp
qed

text \<open>
  C9. When the profile query answers no profile (an empty list, or no data and no error),
  \<open>fetchShelters\<close> leaves an empty list and no error, and the loading indicator is off.
\<close>

theorem no_profiles_no_error:
  assumes "listProfiles b = Fulfilled r" and "resp_error r = None"
    and "resp_data r = None \<or> resp_data r = Some []"
  shows "shelters (fetchShelters b s) = [] \<and> error (fetchShelters b s) = None \<and>
         \<not> loading (fetchShelters b s) \<and> initialized (fetchShelters b s)"
  using assms by (auto simp: fetchShelters_def)

theorem no_profiles_no_error_witness:
  "listProfiles empty_backend = Fulfilled \<lparr>resp_data = Some [], resp_error = None\<rparr> \<and>
   shelters (fetchShelters empty_backend hydrated_state) = [] \<and>
   error (fetchShelters empty_backend hydrated_state) = None \<and>
   \<not> loading (fetchShelters empty_backend hydrated_state) \<and>
   initialized (fetchShelters empty_backend hydrated_state)"
proof -
  let ?r = "\<lparr>resp_data = Some [], resp_error = None\<rparr> :: (jsobj list) response"
  have l: "listProfiles empty_backend = Fulfilled ?r"
    by (simp add: empty_backend_def ok_response_def)
  have e: "resp_error ?r = None" by simp
  have d: "resp_data ?r = None \<or> resp_data ?r = Some []" by simp
  from l no_profiles_no_error [OF l e d, of hydrated_state] show ?thesis by simp
qed

end
